theory Spec2Isabelle
  imports Complex_Main
begin

section \<open>Geometry, colours and paint sources\<close>

text \<open>
  The development embeds \<^verbatim>\<open>Source/WebCore/platform/graphics/cg/GraphicsContextCG.cpp\<close>.
  \<^verbatim>\<open>CGFloat\<close>, \<^verbatim>\<open>float\<close> and \<^verbatim>\<open>double\<close> are modelled as \<^typ>\<open>real\<close>: rounding, infinities
  and NaN are outside the model. Classes that the file only consumes (point, size, rectangle,
  colour, path, image) are records of the data the file reads from them.
\<close>

type_synonym CGFloat = real

record FloatPoint =
  p_x :: real
  p_y :: real

record FloatSize =
  width :: real
  height :: real

record FloatRect =
  m_location :: FloatPoint
  m_size :: FloatSize

definition mkRect :: "real \<Rightarrow> real \<Rightarrow> real \<Rightarrow> real \<Rightarrow> FloatRect" where
  "mkRect x y w h = \<lparr>m_location = \<lparr>p_x = x, p_y = y\<rparr>, m_size = \<lparr>width = w, height = h\<rparr>\<rparr>"

definition sizeIsZero :: "FloatSize \<Rightarrow> bool" where
  \<comment> \<open>\<^verbatim>\<open>FloatSize::isZero\<close>: both components are zero.\<close>
  "sizeIsZero s = (width s = 0 \<and> height s = 0)"

text \<open>
  \<^verbatim>\<open>CGAffineTransform\<close> / \<^verbatim>\<open>AffineTransform\<close>: the matrix \<open>[a b 0; c d 0; tx ty 1]\<close> acting on
  row vectors, so that a point \<open>(x, y)\<close> goes to \<open>(a x + c y + tx, b x + d y + ty)\<close>.
\<close>

record AffineTransform =
  t_a :: real
  t_b :: real
  t_c :: real
  t_d :: real
  t_tx :: real
  t_ty :: real

definition CGAffineTransformMake ::
  "real \<Rightarrow> real \<Rightarrow> real \<Rightarrow> real \<Rightarrow> real \<Rightarrow> real \<Rightarrow> AffineTransform" where
  "CGAffineTransformMake a b c d tx ty = \<lparr>t_a = a, t_b = b, t_c = c, t_d = d, t_tx = tx, t_ty = ty\<rparr>"

definition CGAffineTransformIdentity :: AffineTransform where
  "CGAffineTransformIdentity = CGAffineTransformMake 1 0 0 1 0 0"

definition CGAffineTransformConcat :: "AffineTransform \<Rightarrow> AffineTransform \<Rightarrow> AffineTransform" where
  \<comment> \<open>The matrix product \<open>t1 \<times> t2\<close>: first \<open>t1\<close>, then \<open>t2\<close>.\<close>
  "CGAffineTransformConcat t1 t2 = CGAffineTransformMake
     (t_a t1 * t_a t2 + t_b t1 * t_c t2) (t_a t1 * t_b t2 + t_b t1 * t_d t2)
     (t_c t1 * t_a t2 + t_d t1 * t_c t2) (t_c t1 * t_b t2 + t_d t1 * t_d t2)
     (t_tx t1 * t_a t2 + t_ty t1 * t_c t2 + t_tx t2)
     (t_tx t1 * t_b t2 + t_ty t1 * t_d t2 + t_ty t2)"

definition determinant :: "AffineTransform \<Rightarrow> real" where
  "determinant t = t_a t * t_d t - t_b t * t_c t"


definition CGAffineTransformInvert :: "AffineTransform \<Rightarrow> AffineTransform" where
  \<comment> \<open>Core Graphics returns the argument unchanged when it has no inverse.\<close>
  "CGAffineTransformInvert t =
     (let det = determinant t in
      if det = 0 then t
      else CGAffineTransformMake
             (t_d t / det) (- t_b t / det) (- t_c t / det) (t_a t / det)
             ((t_c t * t_ty t - t_d t * t_tx t) / det)
             ((t_b t * t_tx t - t_a t * t_ty t) / det))"

definition CGSizeApplyAffineTransform :: "FloatSize \<Rightarrow> AffineTransform \<Rightarrow> FloatSize" where
  "CGSizeApplyAffineTransform s t =
     \<lparr>width = t_a t * width s + t_c t * height s, height = t_b t * width s + t_d t * height s\<rparr>"

definition xScale :: "AffineTransform \<Rightarrow> real" where
  \<comment> \<open>Modelled from the spec: \<^verbatim>\<open>AffineTransform::xScale\<close> is declared outside this file;
      the "transform scale" along x is the length of the image of the unit x vector.\<close>
  "xScale t = sqrt (t_a t * t_a t + t_b t * t_b t)"

definition yScale :: "AffineTransform \<Rightarrow> real" where
  \<comment> \<open>Modelled from the spec: as \<open>xScale\<close>, along y.\<close>
  "yScale t = sqrt (t_c t * t_c t + t_d t * t_d t)"

definition isRotateOrShear :: "AffineTransform \<Rightarrow> bool" where
  \<comment> \<open>Modelled from the spec: \<^verbatim>\<open>AffineTransform::isRotateOrShear\<close> is declared outside this
      file; "the transform has rotation/shear" is read as an off-diagonal entry being
      non-zero, the test \<^verbatim>\<open>clipOut\<close> writes out as \<^verbatim>\<open>ctm.b() || ctm.c()\<close>.\<close>
  "isRotateOrShear t = (t_b t \<noteq> 0 \<or> t_c t \<noteq> 0)"

definition mapSize :: "AffineTransform \<Rightarrow> FloatSize \<Rightarrow> FloatSize" where
  \<comment> \<open>Modelled from the spec: \<^verbatim>\<open>AffineTransform::mapSize\<close> is declared outside this file;
      a size "scaled by the current transform" has each extent multiplied by the scale of
      its axis.\<close>
  "mapSize t s = \<lparr>width = width s * xScale t, height = height s * yScale t\<rparr>"

text \<open>
  A \<^verbatim>\<open>Color\<close> is either invalid (the default-constructed colour) or carries components;
  validity is a flag of its own, so a fully transparent colour such as transparent black is
  still valid. \<^verbatim>\<open>Color::isVisible\<close> asks for a valid colour with non-zero alpha.
\<close>

record Color =
  isValid :: bool
  rgb :: "nat \<times> nat \<times> nat"
  alphaChannel :: nat

definition colorIsVisible :: "Color \<Rightarrow> bool" where
  "colorIsVisible col = (isValid col \<and> alphaChannel col \<noteq> 0)"

datatype Gradient = Gradient nat

record Pattern =
  patternTile :: nat
  createsPlatformPattern :: bool

record SourceBrush =
  brushColor :: Color
  brushGradient :: "Gradient option"
  brushGradientSpaceTransform :: AffineTransform
  brushPattern :: "Pattern option"

definition brushIsVisible :: "SourceBrush \<Rightarrow> bool" where
  \<comment> \<open>Modelled from the spec: \<^verbatim>\<open>SourceBrush::isVisible\<close> is declared outside this file;
      "solid/gradient/pattern all indicate should fill".\<close>
  "brushIsVisible br =
     (brushPattern br \<noteq> None \<or> brushGradient br \<noteq> None \<or> colorIsVisible (brushColor br))"

text \<open>
  A \<^verbatim>\<open>Path\<close> belongs to the caller; the file reads whether it is empty, its bounding
  rectangle and whether it is a single line segment, and hands it to the backend.
\<close>

record Path =
  pathId :: nat
  pathIsEmpty :: bool
  fastBoundingRect :: FloatRect
  singleDataLine :: "(FloatPoint \<times> FloatPoint) option"

section \<open>Drawing state\<close>

datatype WindRule = NonZero | EvenOdd

datatype StrokeStyle = NoStroke | SolidStroke | DottedStroke | DashedStroke | DoubleStroke | WavyStroke

datatype RenderingMode = Unaccelerated | Accelerated | PDFDocument | DisplayList

record GraphicsDropShadow =
  offset :: FloatSize
  radius :: real
  color :: Color
  opacity :: real

record GraphicsContextState =
  fillBrush :: SourceBrush
  fillRule :: WindRule
  strokeBrush :: SourceBrush
  strokeThickness :: real
  strokeStyle :: StrokeStyle
  dropShadow :: "GraphicsDropShadow option"
  shadowsIgnoreTransforms :: bool
  stateAlpha :: real

text \<open>
  The predicates of \<^verbatim>\<open>GraphicsDropShadow\<close> are declared outside this file: a shadow is
  visible when its colour is, blurred when it is visible with a non-zero radius, and has
  outsets when it is blurred or visible with a non-zero offset.
\<close>

definition shadowIsVisible :: "GraphicsDropShadow \<Rightarrow> bool" where
  "shadowIsVisible s = colorIsVisible (color s)"

definition shadowIsBlurred :: "GraphicsDropShadow \<Rightarrow> bool" where
  "shadowIsBlurred s = (shadowIsVisible s \<and> radius s \<noteq> 0)"

definition shadowHasOutsets :: "GraphicsDropShadow \<Rightarrow> bool" where
  "shadowHasOutsets s = (shadowIsBlurred s \<or> (shadowIsVisible s \<and> \<not> sizeIsZero (offset s)))"

section \<open>The Core Graphics backend\<close>

text \<open>
  The backend is a \<^verbatim>\<open>CGContextRef\<close>. Its model keeps the part of the graphics state the
  file relies on (transform, paints, style, alpha, clip), the stack of saved graphics
  states, the current path, and a log of every call issued together with the graphics state
  the call was issued under. A rectangle handed to the backend is a given rectangle, the
  infinite rectangle, or the answer of \<^verbatim>\<open>CGContextGetClipBoundingBox\<close> at the time of the
  call, which only the backend can compute and which is therefore kept symbolic.
\<close>

datatype CGContextType =
  kCGContextTypeUnknown | kCGContextTypePDF | kCGContextTypeBitmap | kCGContextTypeIOSurface
  | kCGContextTypeDisplayList

datatype CGPathDrawingMode =
  kCGPathFill | kCGPathEOFill | kCGPathStroke | kCGPathFillStroke | kCGPathEOFillStroke

datatype CGInterpolationQuality =
  kCGInterpolationDefault | kCGInterpolationNone | kCGInterpolationLow | kCGInterpolationMedium
  | kCGInterpolationHigh

datatype CGRect = CGRectOf FloatRect | CGRectInfinite | CGClipBoundingBox

definition CGRectZero :: CGRect where
  "CGRectZero = CGRectOf (mkRect 0 0 0 0)"

record CGImage =
  imageId :: nat
  CGImageGetWidth :: nat
  CGImageGetHeight :: nat

datatype CGImageRef = WholeImage CGImage | CGImageCreateWithImageInRect CGImage FloatRect

datatype CGPaint =
    CGColorPaint Color
  | CGPatternPaint Pattern AffineTransform
  | CGTilingPaint "CGImageRef option" FloatRect AffineTransform real real

datatype CGStyle = CGStyleShadow FloatSize real Color | CGStyleGaussianBlur real

datatype CGPathItem = RectItem CGRect | PathItem Path | StrokedItem "CGPathItem list"

datatype CGClip = ClipToRect CGRect | ClipToPath WindRule "CGPathItem list"

datatype CGBlendMode =
    kCGBlendModeNormal | kCGBlendModeMultiply | kCGBlendModeScreen | kCGBlendModeOverlay
  | kCGBlendModeDarken | kCGBlendModeLighten | kCGBlendModeColorDodge | kCGBlendModeColorBurn
  | kCGBlendModeSoftLight | kCGBlendModeHardLight | kCGBlendModeDifference
  | kCGBlendModeExclusion | kCGBlendModeHue | kCGBlendModeSaturation | kCGBlendModeColor
  | kCGBlendModeLuminosity | kCGBlendModeClear | kCGBlendModeCopy | kCGBlendModeSourceIn
  | kCGBlendModeSourceOut | kCGBlendModeSourceAtop | kCGBlendModeDestinationOver
  | kCGBlendModeDestinationIn | kCGBlendModeDestinationOut | kCGBlendModeDestinationAtop
  | kCGBlendModeXOR | kCGBlendModePlusDarker | kCGBlendModePlusLighter

record CGGState =
  gsCTM :: AffineTransform
  gsBaseCTM :: AffineTransform
  gsBlendMode :: CGBlendMode
  gsFillColor :: CGPaint
  gsStrokeColor :: CGPaint
  gsStyle :: "CGStyle option"
  gsAlpha :: real
  gsLineWidth :: real
  gsInterpolationQuality :: CGInterpolationQuality
  gsClip :: "CGClip list"

datatype CGCall =
    CGContextSaveGState
  | CGContextRestoreGState
  | CGContextSetFillColorWithColor Color
  | CGContextSetFillColorSpace
  | CGContextSetFillPattern Pattern AffineTransform
  | CGContextSetStrokeColorSpace
  | CGContextSetStrokePattern Pattern AffineTransform
  | CGContextSetStyle "CGStyle option"
  | CGContextSetAlpha real
  | CGContextSetBlendMode CGBlendMode
  | CGContextSetBaseCTM AffineTransform
  | CGContextSetPatternPhase FloatSize
  | CGContextSetFillColorWithPattern "CGImageRef option" FloatRect AffineTransform real real
  | CGContextSetLineWidth real
  | CGContextTranslateCTM real real
  | CGContextScaleCTM real real
  | CGContextConcatCTM AffineTransform
  | CGContextBeginPath
  | CGContextAddRect CGRect
  | CGContextAddRects "CGRect list"
  | CGContextAddPath Path
  | CGContextReplacePathWithStrokedPath
  | CGContextClip
  | CGContextEOClip
  | CGContextClipToRect CGRect
  | CGContextFillRect CGRect
  | CGContextDrawPathDirect CGPathDrawingMode Path
  | CGContextStrokeLineSegments FloatPoint FloatPoint
  | CGContextDrawTiledImage FloatRect "CGImageRef option"
  | CGContextDrawLayerInRect CGRect FloatSize "CGCall list"
  | GradientPaint Gradient
  | ShadowBlurDrawRectShadow GraphicsDropShadow bool FloatRect

record CGContext =
  cgType :: CGContextType
  cgGState :: CGGState
  cgGStack :: "CGGState list"
  cgPath :: "CGPathItem list"
  cgLog :: "(CGCall \<times> CGGState) list"

definition updGState :: "(CGGState \<Rightarrow> CGGState) \<Rightarrow> CGContext \<Rightarrow> CGContext" where
  "updGState f cg = cg\<lparr>cgGState := f (cgGState cg)\<rparr>"

definition addClip :: "CGClip \<Rightarrow> CGContext \<Rightarrow> CGContext" where
  \<comment> \<open>Clipping intersects the clip of the current graphics state and consumes the path.\<close>
  "addClip cl cg = (updGState (\<lambda>g. g\<lparr>gsClip := cl # gsClip g\<rparr>) cg)\<lparr>cgPath := []\<rparr>"

text \<open>
  What a call does to the modelled part of the backend. Painting calls leave the graphics
  state alone; those that build a path of their own leave no current path behind.
\<close>

fun cgEffect :: "CGCall \<Rightarrow> CGContext \<Rightarrow> CGContext" where
  "cgEffect CGContextSaveGState cg = cg\<lparr>cgGStack := cgGState cg # cgGStack cg\<rparr>"
| "cgEffect CGContextRestoreGState cg =
     (case cgGStack cg of [] \<Rightarrow> cg | g # rest \<Rightarrow> cg\<lparr>cgGState := g, cgGStack := rest\<rparr>)"
| "cgEffect (CGContextSetFillColorWithColor col) cg =
     updGState (\<lambda>g. g\<lparr>gsFillColor := CGColorPaint col\<rparr>) cg"
| "cgEffect (CGContextSetFillPattern p t) cg =
     updGState (\<lambda>g. g\<lparr>gsFillColor := CGPatternPaint p t\<rparr>) cg"
| "cgEffect (CGContextSetStrokePattern p t) cg =
     updGState (\<lambda>g. g\<lparr>gsStrokeColor := CGPatternPaint p t\<rparr>) cg"
| "cgEffect (CGContextSetStyle st) cg = updGState (\<lambda>g. g\<lparr>gsStyle := st\<rparr>) cg"
| "cgEffect (CGContextSetAlpha al) cg = updGState (\<lambda>g. g\<lparr>gsAlpha := al\<rparr>) cg"
| "cgEffect (CGContextSetBlendMode bm) cg = updGState (\<lambda>g. g\<lparr>gsBlendMode := bm\<rparr>) cg"
| "cgEffect (CGContextSetBaseCTM t) cg = updGState (\<lambda>g. g\<lparr>gsBaseCTM := t\<rparr>) cg"
| "cgEffect (CGContextSetFillColorWithPattern img bounds t xStep yStep) cg =
     updGState (\<lambda>g. g\<lparr>gsFillColor := CGTilingPaint img bounds t xStep yStep\<rparr>) cg"
| "cgEffect (CGContextSetLineWidth w) cg = updGState (\<lambda>g. g\<lparr>gsLineWidth := w\<rparr>) cg"
| "cgEffect (CGContextTranslateCTM dx dy) cg =
     updGState (\<lambda>g. g\<lparr>gsCTM := CGAffineTransformConcat (CGAffineTransformMake 1 0 0 1 dx dy) (gsCTM g)\<rparr>) cg"
| "cgEffect (CGContextScaleCTM sx sy) cg =
     updGState (\<lambda>g. g\<lparr>gsCTM := CGAffineTransformConcat (CGAffineTransformMake sx 0 0 sy 0 0) (gsCTM g)\<rparr>) cg"
| "cgEffect (CGContextConcatCTM t) cg =
     updGState (\<lambda>g. g\<lparr>gsCTM := CGAffineTransformConcat t (gsCTM g)\<rparr>) cg"
| "cgEffect CGContextBeginPath cg = cg\<lparr>cgPath := []\<rparr>"
| "cgEffect (CGContextAddRect r) cg = cg\<lparr>cgPath := cgPath cg @ [RectItem r]\<rparr>"
| "cgEffect (CGContextAddRects rs) cg = cg\<lparr>cgPath := cgPath cg @ map RectItem rs\<rparr>"
| "cgEffect (CGContextAddPath p) cg = cg\<lparr>cgPath := cgPath cg @ [PathItem p]\<rparr>"
| "cgEffect CGContextReplacePathWithStrokedPath cg = cg\<lparr>cgPath := [StrokedItem (cgPath cg)]\<rparr>"
| "cgEffect CGContextClip cg = addClip (ClipToPath NonZero (cgPath cg)) cg"
| "cgEffect CGContextEOClip cg = addClip (ClipToPath EvenOdd (cgPath cg)) cg"
| "cgEffect (CGContextClipToRect r) cg = addClip (ClipToRect r) cg"
| "cgEffect (CGContextFillRect r) cg = cg\<lparr>cgPath := []\<rparr>"
| "cgEffect (CGContextStrokeLineSegments p q) cg = cg\<lparr>cgPath := []\<rparr>"
| "cgEffect _ cg = cg"

definition cgIssue :: "CGCall \<Rightarrow> CGContext \<Rightarrow> CGContext" where
  "cgIssue call cg = cgEffect call (cg\<lparr>cgLog := cgLog cg @ [(call, cgGState cg)]\<rparr>)"

fun cgIssueAll :: "CGCall list \<Rightarrow> CGContext \<Rightarrow> CGContext" where
  "cgIssueAll [] cg = cg"
| "cgIssueAll (call # calls) cg = cgIssueAll calls (cgIssue call cg)"

definition getUserToBaseCTM :: "CGContext \<Rightarrow> AffineTransform" where
  "getUserToBaseCTM cg =
     CGAffineTransformConcat (gsCTM (cgGState cg)) (CGAffineTransformInvert (gsBaseCTM (cgGState cg)))"

definition setCGContextPath :: "Path \<Rightarrow> CGContext \<Rightarrow> CGContext" where
  "setCGContextPath path cg = cgIssue (CGContextAddPath path) (cgIssue CGContextBeginPath cg)"

definition drawPathWithCGContext :: "CGPathDrawingMode \<Rightarrow> Path \<Rightarrow> CGContext \<Rightarrow> CGContext" where
  "drawPathWithCGContext drawingMode path cg = cgIssue (CGContextDrawPathDirect drawingMode path) cg"

definition setCGFillColor :: "Color \<Rightarrow> CGContext \<Rightarrow> CGContext" where
  "setCGFillColor col cg = cgIssue (CGContextSetFillColorWithColor col) cg"

definition renderingModeForCGContext :: "CGContextType option \<Rightarrow> bool \<Rightarrow> RenderingMode" where
  \<comment> \<open>The second argument is \<^verbatim>\<open>source == CGContextFromCALayer\<close>.\<close>
  "renderingModeForCGContext cgContext fromCALayer =
     (case cgContext of
        None \<Rightarrow> Unaccelerated
      | Some ty \<Rightarrow>
          if ty = kCGContextTypeIOSurface \<or> (fromCALayer \<and> ty = kCGContextTypeUnknown) then Accelerated
          else if ty = kCGContextTypePDF then PDFDocument
          else Unaccelerated)"

section \<open>The graphics context\<close>

record GraphicsContextCG =
  m_state :: GraphicsContextState
  m_stack :: "GraphicsContextState list"
  m_cgContext :: CGContext
  m_renderingMode :: RenderingMode
  m_userToDeviceTransformKnownToBeIdentity :: bool

definition onCG :: "(CGContext \<Rightarrow> CGContext) \<Rightarrow> GraphicsContextCG \<Rightarrow> GraphicsContextCG" where
  "onCG f gc = gc\<lparr>m_cgContext := f (m_cgContext gc)\<rparr>"

definition stackSize :: "GraphicsContextCG \<Rightarrow> nat" where
  "stackSize gc = length (m_stack gc)"

definition GraphicsContext_save :: "GraphicsContextCG \<Rightarrow> GraphicsContextCG" where
  \<comment> \<open>Modelled from the spec: the base class \<^verbatim>\<open>GraphicsContext::save\<close> is outside this file;
      "save() pushes a copy of the current state".\<close>
  "GraphicsContext_save gc = gc\<lparr>m_stack := m_state gc # m_stack gc\<rparr>"

definition GraphicsContext_restore :: "GraphicsContextCG \<Rightarrow> GraphicsContextCG" where
  \<comment> \<open>Modelled from the spec: the base class \<^verbatim>\<open>GraphicsContext::restore\<close> is outside this
      file; "restore() pops" the most recent snapshot and makes it the current state.\<close>
  "GraphicsContext_restore gc =
     (case m_stack gc of [] \<Rightarrow> gc | s # rest \<Rightarrow> gc\<lparr>m_state := s, m_stack := rest\<rparr>)"

text \<open>
  The \<^verbatim>\<open>purpose\<close> argument of \<^verbatim>\<open>save\<close> and \<^verbatim>\<open>restore\<close> only feeds the base class's
  diagnostics and is left out.
\<close>

definition save :: "GraphicsContextCG \<Rightarrow> GraphicsContextCG" where
  "save gc = onCG (cgIssue CGContextSaveGState) (GraphicsContext_save gc)"

definition restore :: "GraphicsContextCG \<Rightarrow> GraphicsContextCG" where
  "restore gc =
     (if stackSize gc = 0 then gc
      else (onCG (cgIssue CGContextRestoreGState) (GraphicsContext_restore gc))
             \<lparr>m_userToDeviceTransformKnownToBeIdentity := False\<rparr>)"

section \<open>Path drawing\<close>

definition fillGradient :: "GraphicsContextCG \<Rightarrow> Gradient option" where
  "fillGradient gc = brushGradient (fillBrush (m_state gc))"

definition strokeGradient :: "GraphicsContextCG \<Rightarrow> Gradient option" where
  "strokeGradient gc = brushGradient (strokeBrush (m_state gc))"

definition fillPattern :: "GraphicsContextCG \<Rightarrow> Pattern option" where
  "fillPattern gc = brushPattern (fillBrush (m_state gc))"

definition strokePattern :: "GraphicsContextCG \<Rightarrow> Pattern option" where
  "strokePattern gc = brushPattern (strokeBrush (m_state gc))"

definition fillColor :: "GraphicsContextCG \<Rightarrow> Color" where
  "fillColor gc = brushColor (fillBrush (m_state gc))"

definition fillGradientSpaceTransform :: "GraphicsContextCG \<Rightarrow> AffineTransform" where
  "fillGradientSpaceTransform gc = brushGradientSpaceTransform (fillBrush (m_state gc))"

definition strokeGradientSpaceTransform :: "GraphicsContextCG \<Rightarrow> AffineTransform" where
  "strokeGradientSpaceTransform gc = brushGradientSpaceTransform (strokeBrush (m_state gc))"

definition hasDropShadow :: "GraphicsContextCG \<Rightarrow> bool" where
  \<comment> \<open>Modelled from the spec: \<^verbatim>\<open>GraphicsContext::hasDropShadow\<close> is declared outside this
      file; "a drop shadow is active" when the state has one that reaches beyond the shape.\<close>
  "hasDropShadow gc = (case dropShadow (m_state gc) of None \<Rightarrow> False | Some s \<Rightarrow> shadowHasOutsets s)"

definition hasBlurredDropShadow :: "GraphicsContextCG \<Rightarrow> bool" where
  \<comment> \<open>Modelled from the spec: declared outside this file; "an active blurred drop shadow".\<close>
  "hasBlurredDropShadow gc = (case dropShadow (m_state gc) of None \<Rightarrow> False | Some s \<Rightarrow> shadowIsBlurred s)"

definition getCTM :: "GraphicsContextCG \<Rightarrow> AffineTransform" where
  "getCTM gc = gsCTM (cgGState (m_cgContext gc))"

definition ceilf :: "real \<Rightarrow> real" where
  "ceilf v = of_int \<lceil>v\<rceil>"

definition roundf :: "real \<Rightarrow> real" where
  \<comment> \<open>C's \<^verbatim>\<open>roundf\<close> rounds halves away from zero.\<close>
  "roundf v = (if 0 \<le> v then of_int \<lfloor>v + 1 / 2\<rfloor> else of_int \<lceil>v - 1 / 2\<rceil>)"

definition applyStrokePattern :: "GraphicsContextCG \<Rightarrow> GraphicsContextCG" where
  "applyStrokePattern gc =
     (case strokePattern gc of
        None \<Rightarrow> gc
      | Some pat \<Rightarrow>
          let userToBaseCTM = getUserToBaseCTM (m_cgContext gc) in
          if \<not> createsPlatformPattern pat then gc
          else onCG (cgIssueAll [CGContextSetStrokeColorSpace,
                                 CGContextSetStrokePattern pat userToBaseCTM]) gc)"

definition applyFillPattern :: "GraphicsContextCG \<Rightarrow> GraphicsContextCG" where
  "applyFillPattern gc =
     (case fillPattern gc of
        None \<Rightarrow> gc
      | Some pat \<Rightarrow>
          let userToBaseCTM = getUserToBaseCTM (m_cgContext gc) in
          if \<not> createsPlatformPattern pat then gc
          else onCG (cgIssueAll [CGContextSetFillColorSpace,
                                 CGContextSetFillPattern pat userToBaseCTM]) gc)"

text \<open>
  \<^verbatim>\<open>calculateDrawingMode\<close> returns a flag and writes the mode through a reference; the model
  returns the pair.
\<close>

definition calculateDrawingMode :: "GraphicsContextCG \<Rightarrow> bool \<times> CGPathDrawingMode" where
  "calculateDrawingMode gc =
     (let shouldFill = brushIsVisible (fillBrush (m_state gc));
          shouldStroke = (brushIsVisible (strokeBrush (m_state gc))
                          \<or> strokeStyle (m_state gc) \<noteq> NoStroke);
          useEOFill = (fillRule (m_state gc) = EvenOdd);
          mode = (if shouldFill then
                    (if shouldStroke then (if useEOFill then kCGPathEOFillStroke else kCGPathFillStroke)
                     else (if useEOFill then kCGPathEOFill else kCGPathFill))
                  else kCGPathStroke)
      in (shouldFill \<or> shouldStroke, mode))"

definition fillPath :: "Path \<Rightarrow> GraphicsContextCG \<Rightarrow> GraphicsContextCG" where
  "fillPath path gc =
     (if pathIsEmpty path then gc
      else case fillGradient gc of
        Some gradient \<Rightarrow>
          let clipCall = (if fillRule (m_state gc) = EvenOdd then CGContextEOClip else CGContextClip) in
          if hasDropShadow gc then
            let rect = fastBoundingRect path;
                layerSize = mapSize (getCTM gc) (m_size rect);
                layerCalls =
                  [CGContextScaleCTM (width layerSize / width (m_size rect))
                                     (height layerSize / height (m_size rect)),
                   CGContextTranslateCTM (- p_x (m_location rect)) (- p_y (m_location rect)),
                   CGContextBeginPath, CGContextAddPath path,
                   CGContextConcatCTM (fillGradientSpaceTransform gc),
                   clipCall, GradientPaint gradient]
            in onCG (cgIssue (CGContextDrawLayerInRect (CGRectOf rect) layerSize layerCalls)) gc
          else
            onCG (cgIssueAll [CGContextBeginPath, CGContextAddPath path, CGContextSaveGState,
                              CGContextConcatCTM (fillGradientSpaceTransform gc),
                              clipCall, GradientPaint gradient, CGContextRestoreGState]) gc
      | None \<Rightarrow>
          onCG (drawPathWithCGContext
                  (if fillRule (m_state gc) = EvenOdd then kCGPathEOFill else kCGPathFill) path)
               (if fillPattern gc \<noteq> None then applyFillPattern gc else gc))"

definition strokePath :: "Path \<Rightarrow> GraphicsContextCG \<Rightarrow> GraphicsContextCG" where
  "strokePath path gc =
     (if pathIsEmpty path then gc
      else case strokeGradient gc of
        Some gradient \<Rightarrow>
          if hasDropShadow gc then
            let rect = fastBoundingRect path;
                lineWidth = strokeThickness (m_state gc);
                doubleLineWidth = lineWidth * 2;
                adjustedWidth = ceilf (width (m_size rect) + doubleLineWidth);
                adjustedHeight = ceilf (height (m_size rect) + doubleLineWidth);
                layerSize = mapSize (getCTM gc) \<lparr>width = adjustedWidth, height = adjustedHeight\<rparr>;
                translationX = lineWidth - p_x (m_location rect);
                translationY = lineWidth - p_y (m_location rect);
                layerCalls =
                  [CGContextSetLineWidth lineWidth,
                   CGContextScaleCTM (width layerSize / adjustedWidth) (height layerSize / adjustedHeight),
                   CGContextTranslateCTM translationX translationY,
                   CGContextBeginPath, CGContextAddPath path,
                   CGContextReplacePathWithStrokedPath, CGContextClip,
                   CGContextConcatCTM (strokeGradientSpaceTransform gc),
                   GradientPaint gradient];
                destinationX = roundf (p_x (m_location rect) - lineWidth);
                destinationY = roundf (p_y (m_location rect) - lineWidth)
            in onCG (cgIssue (CGContextDrawLayerInRect
                                (CGRectOf (mkRect destinationX destinationY adjustedWidth adjustedHeight))
                                layerSize layerCalls)) gc
          else
            onCG (cgIssueAll [CGContextSaveGState, CGContextBeginPath, CGContextAddPath path,
                              CGContextReplacePathWithStrokedPath, CGContextClip,
                              CGContextConcatCTM (strokeGradientSpaceTransform gc),
                              GradientPaint gradient, CGContextRestoreGState]) gc
      | None \<Rightarrow>
          let gc1 = (if strokePattern gc \<noteq> None then applyStrokePattern gc else gc) in
          (case singleDataLine path of
             Some line \<Rightarrow> onCG (cgIssue (CGContextStrokeLineSegments (fst line) (snd line))) gc1
           | None \<Rightarrow> onCG (drawPathWithCGContext kCGPathStroke path) gc1))"

definition drawPath :: "Path \<Rightarrow> GraphicsContextCG \<Rightarrow> GraphicsContextCG" where
  "drawPath path gc =
     (if pathIsEmpty path then gc
      else if fillGradient gc \<noteq> None \<or> strokeGradient gc \<noteq> None then
        strokePath path (fillPath path gc)
      else
        let gc1 = (if fillPattern gc \<noteq> None then applyFillPattern gc else gc);
            gc2 = (if strokePattern gc1 \<noteq> None then applyStrokePattern gc1 else gc1);
            (shouldDraw, drawingMode) = calculateDrawingMode gc2
        in if shouldDraw then onCG (drawPathWithCGContext drawingMode path) gc2 else gc2)"

text \<open>
  The decision table of the specification, as a function of the three booleans; \<open>None\<close> is
  "no draw call".
\<close>

fun specDrawingModeTable :: "bool \<Rightarrow> bool \<Rightarrow> bool \<Rightarrow> CGPathDrawingMode option" where
  "specDrawingModeTable True True True = Some kCGPathEOFillStroke"
| "specDrawingModeTable True True False = Some kCGPathFillStroke"
| "specDrawingModeTable True False True = Some kCGPathEOFill"
| "specDrawingModeTable True False False = Some kCGPathFill"
| "specDrawingModeTable False True _ = Some kCGPathStroke"
| "specDrawingModeTable False False _ = None"

section \<open>Clipping\<close>

definition canUseCGRectInfinite :: "GraphicsContextCG \<Rightarrow> bool" where
  "canUseCGRectInfinite gc =
     (let ctm = getCTM gc in
      cgType (m_cgContext gc) \<noteq> kCGContextTypePDF
      \<and> (m_renderingMode gc = Unaccelerated \<or> (t_b ctm = 0 \<and> t_c ctm = 0)))"

definition clipOut :: "FloatRect \<Rightarrow> GraphicsContextCG \<Rightarrow> GraphicsContextCG" where
  "clipOut rect gc =
     (let rects = [if canUseCGRectInfinite gc then CGRectInfinite else CGClipBoundingBox,
                   CGRectOf rect]
      in onCG (cgIssueAll [CGContextBeginPath, CGContextAddRects rects, CGContextEOClip]) gc)"

definition clipOutPath :: "Path \<Rightarrow> GraphicsContextCG \<Rightarrow> GraphicsContextCG" where
  "clipOutPath path gc =
     onCG (cgIssueAll ([CGContextBeginPath, CGContextAddRect CGClipBoundingBox]
                       @ (if \<not> pathIsEmpty path then [CGContextAddPath path] else [])
                       @ [CGContextEOClip])) gc"

definition clipPath :: "Path \<Rightarrow> WindRule \<Rightarrow> GraphicsContextCG \<Rightarrow> GraphicsContextCG" where
  "clipPath path clipRule gc =
     (if pathIsEmpty path then onCG (cgIssue (CGContextClipToRect CGRectZero)) gc
      else onCG (cgIssue (if clipRule = EvenOdd then CGContextEOClip else CGContextClip))
                (onCG (setCGContextPath path) gc))"

section \<open>Shadows and blur\<close>

definition scaledBlurRadius :: "CGFloat \<Rightarrow> AffineTransform \<Rightarrow> bool \<Rightarrow> CGFloat" where
  "scaledBlurRadius blurRadius userToBaseCTM ignoreTransforms =
     (let scaled =
            (if \<not> ignoreTransforms then
               let A = t_a userToBaseCTM * t_a userToBaseCTM + t_b userToBaseCTM * t_b userToBaseCTM;
                   B = t_a userToBaseCTM * t_c userToBaseCTM + t_b userToBaseCTM * t_d userToBaseCTM;
                   C = B;
                   D = t_c userToBaseCTM * t_c userToBaseCTM + t_d userToBaseCTM * t_d userToBaseCTM;
                   smallEigenvalue = sqrt (0.5 * ((A + D) - sqrt (4 * B * C + (A - D) * (A - D))))
               in blurRadius * smallEigenvalue
             else blurRadius)
      in min scaled 1000)"

definition clearCGDropShadow :: "GraphicsContextCG \<Rightarrow> GraphicsContextCG" where
  "clearCGDropShadow gc = onCG (cgIssue (CGContextSetStyle None)) gc"

definition setCGDropShadow ::
  "GraphicsDropShadow option \<Rightarrow> bool \<Rightarrow> GraphicsContextCG \<Rightarrow> GraphicsContextCG" where
  "setCGDropShadow shadow ignoreTransforms gc =
     (case shadow of
        None \<Rightarrow> clearCGDropShadow gc
      | Some s \<Rightarrow>
          if \<not> isValid (color s) \<or> (sizeIsZero (offset s) \<and> radius s = 0) then clearCGDropShadow gc
          else
            let userToBaseCTM = getUserToBaseCTM (m_cgContext gc);
                blurRadius = scaledBlurRadius (radius s) userToBaseCTM ignoreTransforms;
                shadowOffset = (if \<not> ignoreTransforms
                                then CGSizeApplyAffineTransform (offset s) userToBaseCTM
                                else offset s)
            in onCG (cgIssueAll [CGContextSetAlpha (opacity s),
                                 CGContextSetStyle (Some (CGStyleShadow shadowOffset blurRadius (color s)))])
                    gc)"












section \<open>Filling rectangles\<close>

definition canUseShadowBlur :: "GraphicsContextCG \<Rightarrow> bool" where
  "canUseShadowBlur gc =
     (m_renderingMode gc = Unaccelerated \<and> hasBlurredDropShadow gc
      \<and> \<not> shadowsIgnoreTransforms (m_state gc))"

definition drawRectShadow :: "FloatRect \<Rightarrow> GraphicsContextCG \<Rightarrow> GraphicsContextCG" where
  \<comment> \<open>Modelled from the spec: \<^verbatim>\<open>ShadowBlur::drawRectShadow\<close> is "a dedicated low-level blur
      routine (an external collaborator)"; it paints the shadow of the shape and is logged as
      one painting call that leaves the context as it found it.\<close>
  "drawRectShadow rect gc =
     (case dropShadow (m_state gc) of
        None \<Rightarrow> gc
      | Some shadow \<Rightarrow>
          onCG (cgIssue (ShadowBlurDrawRectShadow shadow (shadowsIgnoreTransforms (m_state gc)) rect)) gc)"

text \<open>
  \<^verbatim>\<open>CGContextStateSaver stateSaver(context, drawOwnShadow)\<close> saves the graphics state when
  its flag is set; \<^verbatim>\<open>stateSaver.restore()\<close> restores it and clears the flag, so the
  destructor has nothing left to do.
\<close>

definition fillRect :: "FloatRect \<Rightarrow> Color \<Rightarrow> GraphicsContextCG \<Rightarrow> GraphicsContextCG" where
  "fillRect rect col gc =
     (let oldFillColor = fillColor gc;
          gc1 = (if oldFillColor \<noteq> col then onCG (setCGFillColor col) gc else gc);
          drawOwnShadow = canUseShadowBlur gc1;
          gc2 = (if drawOwnShadow then onCG (cgIssue CGContextSaveGState) gc1 else gc1);
          gc3 = (if drawOwnShadow then drawRectShadow rect (clearCGDropShadow gc2) else gc2);
          gc4 = onCG (cgIssue (CGContextFillRect (CGRectOf rect))) gc3;
          gc5 = (if drawOwnShadow then onCG (cgIssue CGContextRestoreGState) gc4 else gc4)
      in if oldFillColor \<noteq> col then onCG (setCGFillColor oldFillColor) gc5 else gc5)"

section \<open>Images and patterns\<close>

datatype CompositeOperator =
    CompositeClear | CompositeCopy | CompositeSourceOver | CompositeSourceIn | CompositeSourceOut
  | CompositeSourceAtop | CompositeDestinationOver | CompositeDestinationIn
  | CompositeDestinationOut | CompositeDestinationAtop | CompositeXOR | CompositePlusDarker
  | CompositePlusLighter | CompositeDifference

datatype BlendMode =
    BlendNormal | BlendMultiply | BlendScreen | BlendOverlay | BlendDarken | BlendLighten
  | BlendColorDodge | BlendColorBurn | BlendHardLight | BlendSoftLight | BlendDifference
  | BlendExclusion | BlendHue | BlendSaturation | BlendColor | BlendLuminosity
  | BlendPlusDarker | BlendPlusLighter

fun selectCGBlendMode :: "CompositeOperator \<Rightarrow> BlendMode \<Rightarrow> CGBlendMode" where
  "selectCGBlendMode CompositeClear BlendNormal = kCGBlendModeClear"
| "selectCGBlendMode CompositeCopy BlendNormal = kCGBlendModeCopy"
| "selectCGBlendMode CompositeSourceOver BlendNormal = kCGBlendModeNormal"
| "selectCGBlendMode CompositeSourceIn BlendNormal = kCGBlendModeSourceIn"
| "selectCGBlendMode CompositeSourceOut BlendNormal = kCGBlendModeSourceOut"
| "selectCGBlendMode CompositeSourceAtop BlendNormal = kCGBlendModeSourceAtop"
| "selectCGBlendMode CompositeDestinationOver BlendNormal = kCGBlendModeDestinationOver"
| "selectCGBlendMode CompositeDestinationIn BlendNormal = kCGBlendModeDestinationIn"
| "selectCGBlendMode CompositeDestinationOut BlendNormal = kCGBlendModeDestinationOut"
| "selectCGBlendMode CompositeDestinationAtop BlendNormal = kCGBlendModeDestinationAtop"
| "selectCGBlendMode CompositeXOR BlendNormal = kCGBlendModeXOR"
| "selectCGBlendMode CompositePlusDarker BlendNormal = kCGBlendModePlusDarker"
| "selectCGBlendMode CompositePlusLighter BlendNormal = kCGBlendModePlusLighter"
| "selectCGBlendMode CompositeDifference BlendNormal = kCGBlendModeDifference"
| "selectCGBlendMode _ BlendMultiply = kCGBlendModeMultiply"
| "selectCGBlendMode _ BlendScreen = kCGBlendModeScreen"
| "selectCGBlendMode _ BlendOverlay = kCGBlendModeOverlay"
| "selectCGBlendMode _ BlendDarken = kCGBlendModeDarken"
| "selectCGBlendMode _ BlendLighten = kCGBlendModeLighten"
| "selectCGBlendMode _ BlendColorDodge = kCGBlendModeColorDodge"
| "selectCGBlendMode _ BlendColorBurn = kCGBlendModeColorBurn"
| "selectCGBlendMode _ BlendHardLight = kCGBlendModeHardLight"
| "selectCGBlendMode _ BlendSoftLight = kCGBlendModeSoftLight"
| "selectCGBlendMode _ BlendDifference = kCGBlendModeDifference"
| "selectCGBlendMode _ BlendExclusion = kCGBlendModeExclusion"
| "selectCGBlendMode _ BlendHue = kCGBlendModeHue"
| "selectCGBlendMode _ BlendSaturation = kCGBlendModeSaturation"
| "selectCGBlendMode _ BlendColor = kCGBlendModeColor"
| "selectCGBlendMode _ BlendLuminosity = kCGBlendModeLuminosity"
| "selectCGBlendMode _ BlendPlusDarker = kCGBlendModePlusDarker"
| "selectCGBlendMode _ BlendPlusLighter = kCGBlendModePlusLighter"

text \<open>\<^verbatim>\<open>setCGBlendMode\<close> issues the one call; \<^verbatim>\<open>drawPattern\<close> below lists that call in place.\<close>

definition setCGBlendMode :: "CompositeOperator \<Rightarrow> BlendMode \<Rightarrow> CGContext \<Rightarrow> CGContext" where
  "setCGBlendMode op blendMode cg = cgIssue (CGContextSetBlendMode (selectCGBlendMode op blendMode)) cg"

text \<open>
  A \<^verbatim>\<open>NativeImage\<close> has an intrinsic size and a platform image, which may be absent and,
  while the image is still being decoded, may have fewer pixel rows or columns than the
  intrinsic size says.
\<close>

record NativeImage =
  platformImage :: "CGImage option"
  nativeImageSize :: FloatSize




text \<open>The calls a function issued: the log of the result beyond the log it started from.\<close>

definition callsSince :: "GraphicsContextCG \<Rightarrow> GraphicsContextCG \<Rightarrow> CGCall list" where
  "callsSince before after =
     drop (length (cgLog (m_cgContext before))) (map fst (cgLog (m_cgContext after)))"



subsection \<open>The choice of image in \<^verbatim>\<open>drawNativeImage\<close>\<close>

definition rectMaxX :: "FloatRect \<Rightarrow> real" where
  "rectMaxX r = p_x (m_location r) + width (m_size r)"

definition rectMaxY :: "FloatRect \<Rightarrow> real" where
  "rectMaxY r = p_y (m_location r) + height (m_size r)"

definition rectIsEmpty :: "FloatRect \<Rightarrow> bool" where
  "rectIsEmpty r = (width (m_size r) \<le> 0 \<or> height (m_size r) \<le> 0)"

definition normalizeRect :: "FloatRect \<Rightarrow> FloatRect" where
  \<comment> \<open>Modelled from the spec: declared outside this file; "normalize both rectangles
      (non-negative width/height)".\<close>
  "normalizeRect r =
     mkRect (min (p_x (m_location r)) (rectMaxX r)) (min (p_y (m_location r)) (rectMaxY r))
            (max (width (m_size r)) (- width (m_size r)))
            (max (height (m_size r)) (- height (m_size r)))"

definition intersects :: "FloatRect \<Rightarrow> FloatRect \<Rightarrow> bool" where
  \<comment> \<open>Modelled from the spec: \<^verbatim>\<open>FloatRect::intersects\<close> is declared outside this file; two
      non-empty rectangles that overlap.\<close>
  "intersects r other =
     (\<not> rectIsEmpty r \<and> \<not> rectIsEmpty other
      \<and> p_x (m_location r) < rectMaxX other \<and> p_x (m_location other) < rectMaxX r
      \<and> p_y (m_location r) < rectMaxY other \<and> p_y (m_location other) < rectMaxY r)"

definition enclosingIntRect :: "FloatRect \<Rightarrow> FloatRect" where
  \<comment> \<open>Modelled from the spec: "the enclosing integer rectangle of the source rect".\<close>
  "enclosingIntRect r =
     (let left = of_int \<lfloor>p_x (m_location r)\<rfloor>; top = of_int \<lfloor>p_y (m_location r)\<rfloor>
      in mkRect left top (of_int \<lceil>rectMaxX r\<rceil> - left) (of_int \<lceil>rectMaxY r\<rceil> - top))"

definition transposedSize :: "FloatSize \<Rightarrow> FloatSize" where
  "transposedSize s = \<lparr>width = height s, height = width s\<rparr>"

text \<open>
  The lambda \<^verbatim>\<open>shouldUseSubimage\<close> of \<^verbatim>\<open>drawNativeImage\<close>. \<^verbatim>\<open>WTF::areEssentiallyEqual\<close>, a
  comparison of two floating-point numbers up to a relative tolerance, is declared outside
  this file and is a parameter.
\<close>

definition shouldUseSubimage ::
  "(real \<Rightarrow> real \<Rightarrow> bool) \<Rightarrow> CGInterpolationQuality \<Rightarrow> FloatRect \<Rightarrow> FloatRect
   \<Rightarrow> AffineTransform \<Rightarrow> bool" where
  "shouldUseSubimage areEssentiallyEqual interpolationQuality destRect srcRect transform =
     (if interpolationQuality = kCGInterpolationNone then False
      else if isRotateOrShear transform then True
      else
        let xScaleFactor = width (m_size destRect) * xScale transform / width (m_size srcRect);
            yScaleFactor = height (m_size destRect) * yScale transform / height (m_size srcRect)
        in \<not> areEssentiallyEqual xScaleFactor yScaleFactor \<or> xScaleFactor > 1)"

text \<open>
  The first part of \<^verbatim>\<open>drawNativeImage\<close>, up to the choice of the image that is drawn (the
  local \<^verbatim>\<open>subImage\<close>): \<open>None\<close> when the function returns without drawing, the whole image,
  or the sub-image cut out at the enclosing integer rectangle of the source rectangle.
  \<open>usesWidthAsHeight\<close> is \<^verbatim>\<open>options.orientation().usesWidthAsHeight()\<close>.
\<close>

definition drawNativeImage_subImage ::
  "(real \<Rightarrow> real \<Rightarrow> bool) \<Rightarrow> NativeImage \<Rightarrow> FloatRect \<Rightarrow> FloatRect \<Rightarrow> bool
   \<Rightarrow> GraphicsContextCG \<Rightarrow> CGImageRef option" where
  "drawNativeImage_subImage areEssentiallyEqual nativeImage destRect srcRect usesWidthAsHeight gc =
     (case platformImage nativeImage of
        None \<Rightarrow> None
      | Some cgImage \<Rightarrow>
          let imageSize = (if usesWidthAsHeight then transposedSize (nativeImageSize nativeImage)
                           else nativeImageSize nativeImage);
              imageRect = \<lparr>m_location = \<lparr>p_x = 0, p_y = 0\<rparr>, m_size = imageSize\<rparr>;
              normalizedSrcRect = normalizeRect srcRect;
              normalizedDestRect = normalizeRect destRect
          in if \<not> intersects imageRect normalizedSrcRect then None
             else
               let transform = gsCTM (cgGState (m_cgContext gc)) in
               if normalizedSrcRect \<noteq> imageRect then
                 (let interpolationQuality = gsInterpolationQuality (cgGState (m_cgContext gc)) in
                  if shouldUseSubimage areEssentiallyEqual interpolationQuality
                       normalizedDestRect normalizedSrcRect transform
                  then Some (CGImageCreateWithImageInRect cgImage (enclosingIntRect normalizedSrcRect))
                  else Some (WholeImage cgImage))
               else Some (WholeImage cgImage))"

section \<open>Concrete contexts\<close>

text \<open>
  A freshly created context on a bitmap backend, a path and an image, on which the
  theorems below are instantiated.
\<close>

definition opaqueBlack :: Color where
  "opaqueBlack = \<lparr>isValid = True, rgb = (0, 0, 0), alphaChannel = 255\<rparr>"

definition opaqueRed :: Color where
  "opaqueRed = \<lparr>isValid = True, rgb = (255, 0, 0), alphaChannel = 255\<rparr>"

definition transparentBlack :: Color where
  "transparentBlack = \<lparr>isValid = True, rgb = (0, 0, 0), alphaChannel = 0\<rparr>"

definition solidBrush :: "Color \<Rightarrow> SourceBrush" where
  "solidBrush col =
     \<lparr>brushColor = col, brushGradient = None,
      brushGradientSpaceTransform = CGAffineTransformIdentity, brushPattern = None\<rparr>"

definition initialState :: GraphicsContextState where
  "initialState =
     \<lparr>fillBrush = solidBrush opaqueBlack, fillRule = NonZero, strokeBrush = solidBrush opaqueBlack,
      strokeThickness = 0, strokeStyle = SolidStroke, dropShadow = None,
      shadowsIgnoreTransforms = False, stateAlpha = 1\<rparr>"

definition initialGState :: CGGState where
  "initialGState =
     \<lparr>gsCTM = CGAffineTransformIdentity, gsBaseCTM = CGAffineTransformIdentity,
      gsBlendMode = kCGBlendModeNormal, gsFillColor = CGColorPaint opaqueBlack,
      gsStrokeColor = CGColorPaint opaqueBlack, gsStyle = None, gsAlpha = 1, gsLineWidth = 1,
      gsInterpolationQuality = kCGInterpolationDefault, gsClip = []\<rparr>"

definition bitmapContext :: GraphicsContextCG where
  "bitmapContext =
     \<lparr>m_state = initialState, m_stack = [],
      m_cgContext = \<lparr>cgType = kCGContextTypeBitmap, cgGState = initialGState, cgGStack = [],
                     cgPath = [], cgLog = []\<rparr>,
      m_renderingMode = renderingModeForCGContext (Some kCGContextTypeBitmap) False,
      m_userToDeviceTransformKnownToBeIdentity = False\<rparr>"

definition unitSquarePath :: Path where
  "unitSquarePath =
     \<lparr>pathId = 1, pathIsEmpty = False, fastBoundingRect = mkRect 0 0 1 1, singleDataLine = None\<rparr>"

definition emptyPath :: Path where
  "emptyPath =
     \<lparr>pathId = 0, pathIsEmpty = True, fastBoundingRect = mkRect 0 0 0 0, singleDataLine = None\<rparr>"

definition rotatedBitmapContext :: GraphicsContextCG where
  \<comment> \<open>The bitmap context after a quarter turn of the transform.\<close>
  "rotatedBitmapContext =
     onCG (updGState (\<lambda>g. g\<lparr>gsCTM := CGAffineTransformMake 0 1 (- 1) 0 0 0\<rparr>)) bitmapContext"

definition pdfContext :: GraphicsContextCG where
  "pdfContext =
     (onCG (\<lambda>cg. cg\<lparr>cgType := kCGContextTypePDF\<rparr>) bitmapContext)
       \<lparr>m_renderingMode := renderingModeForCGContext (Some kCGContextTypePDF) False\<rparr>"

definition transparentShadow :: GraphicsDropShadow where
  "transparentShadow =
     \<lparr>offset = \<lparr>width = 2, height = 2\<rparr>, radius = 3, color = transparentBlack, opacity = 1\<rparr>"

definition hugeShadow :: GraphicsDropShadow where
  "hugeShadow =
     \<lparr>offset = \<lparr>width = 2, height = 2\<rparr>, radius = 5000, color = opaqueBlack, opacity = 1\<rparr>"

definition invalidColor :: Color where
  \<comment> \<open>The default-constructed colour.\<close>
  "invalidColor = \<lparr>isValid = False, rgb = (0, 0, 0), alphaChannel = 0\<rparr>"

definition invalidColorShadow :: GraphicsDropShadow where
  "invalidColorShadow =
     \<lparr>offset = \<lparr>width = 2, height = 2\<rparr>, radius = 3, color = invalidColor, opacity = 1\<rparr>"

definition entriesSince :: "GraphicsContextCG \<Rightarrow> GraphicsContextCG \<Rightarrow> (CGCall \<times> CGGState) list" where
  \<comment> \<open>The calls a function issued, each with the graphics state it was issued under.\<close>
  "entriesSince before after = drop (length (cgLog (m_cgContext before))) (cgLog (m_cgContext after))"

definition blurredShadowContext :: GraphicsContextCG where
  \<comment> \<open>The bitmap context with a blurred, visible drop shadow in its drawing state.\<close>
  "blurredShadowContext =
     bitmapContext\<lparr>m_state := initialState\<lparr>dropShadow :=
       Some \<lparr>offset = \<lparr>width = 2, height = 2\<rparr>, radius = 3, color = opaqueBlack, opacity = 1\<rparr>\<rparr>\<rparr>"

definition squareImage :: NativeImage where
  \<comment> \<open>A fully decoded image of 100 by 100 pixels.\<close>
  "squareImage =
     \<lparr>platformImage = Some \<lparr>imageId = 1, CGImageGetWidth = 100, CGImageGetHeight = 100\<rparr>,
      nativeImageSize = \<lparr>width = 100, height = 100\<rparr>\<rparr>"


definition exactlyEqual :: "real \<Rightarrow> real \<Rightarrow> bool" where
  \<comment> \<open>A comparison to put in the place of \<^verbatim>\<open>WTF::areEssentiallyEqual\<close> on concrete inputs.\<close>
  "exactlyEqual u v = (u = v)"

definition shearedBitmapContext :: GraphicsContextCG where
  \<comment> \<open>The bitmap context under a horizontal shear.\<close>
  "shearedBitmapContext =
     onCG (updGState (\<lambda>g. g\<lparr>gsCTM := CGAffineTransformMake 1 0 1 1 0 0\<rparr>)) bitmapContext"

definition uninterpolatedBitmapContext :: GraphicsContextCG where
  \<comment> \<open>The sheared context with interpolation switched off.\<close>
  "uninterpolatedBitmapContext =
     onCG (updGState (\<lambda>g. g\<lparr>gsInterpolationQuality := kCGInterpolationNone\<rparr>)) shearedBitmapContext"

section \<open>Facts about the backend log\<close>

lemma cgEffect_log: "cgLog (cgEffect call cg) = cgLog cg"
  by (cases call) (simp_all add: updGState_def addClip_def split: list.splits)

lemma cgIssue_log: "cgLog (cgIssue call cg) = cgLog cg @ [(call, cgGState cg)]"
  by (simp add: cgIssue_def cgEffect_log)

lemma cgIssue_calls: "map fst (cgLog (cgIssue call cg)) = map fst (cgLog cg) @ [call]"
  by (simp add: cgIssue_log)

lemma cgIssueAll_calls: "map fst (cgLog (cgIssueAll calls cg)) = map fst (cgLog cg) @ calls"
  by (induction calls arbitrary: cg) (simp_all add: cgIssue_calls)

lemma callsSince_append:
  "map fst (cgLog (m_cgContext after)) = map fst (cgLog (m_cgContext before)) @ calls
   \<Longrightarrow> callsSince before after = calls"
  by (simp add: callsSince_def)

lemma m_state_onCG: "m_state (onCG f gc) = m_state gc"
  by (simp add: onCG_def)

lemma m_cgContext_onCG: "m_cgContext (onCG f gc) = f (m_cgContext gc)"
  by (simp add: onCG_def)

lemma callsSince_cgIssueAll: "callsSince gc (onCG (cgIssueAll calls) gc) = calls"
  by (rule callsSince_append) (simp add: m_cgContext_onCG cgIssueAll_calls)

lemma callsSince_cgIssue: "callsSince gc (onCG (cgIssue call) gc) = [call]"
  by (rule callsSince_append) (simp add: m_cgContext_onCG cgIssue_calls)

section \<open>Path drawing: the drawing mode\<close>

lemma m_state_applyFillPattern: "m_state (applyFillPattern gc) = m_state gc"
  by (simp add: applyFillPattern_def m_state_onCG Let_def split: option.splits)

lemma m_state_applyStrokePattern: "m_state (applyStrokePattern gc) = m_state gc"
  by (simp add: applyStrokePattern_def m_state_onCG Let_def split: option.splits)

lemma applyFillPattern_None: "fillPattern gc = None \<Longrightarrow> applyFillPattern gc = gc"
  by (simp add: applyFillPattern_def)

lemma applyStrokePattern_None: "strokePattern gc = None \<Longrightarrow> applyStrokePattern gc = gc"
  by (simp add: applyStrokePattern_def)

lemma calculateDrawingMode_table:
  "(case calculateDrawingMode gc of (shouldDraw, mode) \<Rightarrow> if shouldDraw then Some mode else None)
   = specDrawingModeTable (brushIsVisible (fillBrush (m_state gc)))
       (brushIsVisible (strokeBrush (m_state gc)) \<or> strokeStyle (m_state gc) \<noteq> NoStroke)
       (fillRule (m_state gc) = EvenOdd)"
  by (simp add: calculateDrawingMode_def Let_def)

lemma drawPathWithCGContext_eq:
  "drawPathWithCGContext mode path = cgIssue (CGContextDrawPathDirect mode path)"
  by (rule ext) (simp add: drawPathWithCGContext_def)

lemma calculateDrawingMode_cong:
  "m_state gc' = m_state gc \<Longrightarrow> calculateDrawingMode gc' = calculateDrawingMode gc"
  by (simp add: calculateDrawingMode_def)

text \<open>
  C1. The mode \<^verbatim>\<open>calculateDrawingMode\<close> selects, and whether it selects one at all, is the
  specification's table applied to three booleans: the fill brush is visible, the stroke brush
  is visible or the stroke style is not "none", the fill rule is even-odd. For a non-empty
  path and no gradient, \<^verbatim>\<open>drawPath\<close> applies the patterns and then issues exactly the draw
  call of that mode, or no draw call when the table has none.
\<close>

theorem drawPath_mode_table:
  "(case calculateDrawingMode gc of (shouldDraw, mode) \<Rightarrow> if shouldDraw then Some mode else None)
   = specDrawingModeTable (brushIsVisible (fillBrush (m_state gc)))
       (brushIsVisible (strokeBrush (m_state gc)) \<or> strokeStyle (m_state gc) \<noteq> NoStroke)
       (fillRule (m_state gc) = EvenOdd)
   \<and> (\<not> pathIsEmpty path \<and> fillGradient gc = None \<and> strokeGradient gc = None \<longrightarrow>
        drawPath path gc =
          (case specDrawingModeTable (brushIsVisible (fillBrush (m_state gc)))
                  (brushIsVisible (strokeBrush (m_state gc)) \<or> strokeStyle (m_state gc) \<noteq> NoStroke)
                  (fillRule (m_state gc) = EvenOdd) of
             None \<Rightarrow> applyStrokePattern (applyFillPattern gc)
           | Some mode \<Rightarrow>
               onCG (cgIssue (CGContextDrawPathDirect mode path))
                    (applyStrokePattern (applyFillPattern gc))))"
proof (intro conjI impI)
  show "(case calculateDrawingMode gc of (shouldDraw, mode) \<Rightarrow> if shouldDraw then Some mode else None)
   = specDrawingModeTable (brushIsVisible (fillBrush (m_state gc)))
       (brushIsVisible (strokeBrush (m_state gc)) \<or> strokeStyle (m_state gc) \<noteq> NoStroke)
       (fillRule (m_state gc) = EvenOdd)"
    by (rule calculateDrawingMode_table)
next
  assume h: "\<not> pathIsEmpty path \<and> fillGradient gc = None \<and> strokeGradient gc = None"
  define gc1 where "gc1 = (if fillPattern gc \<noteq> None then applyFillPattern gc else gc)"
  define gc2 where "gc2 = (if strokePattern gc1 \<noteq> None then applyStrokePattern gc1 else gc1)"
  have e1: "gc1 = applyFillPattern gc"
    by (simp add: gc1_def applyFillPattern_None)
  have e2: "gc2 = applyStrokePattern (applyFillPattern gc)"
    by (simp add: gc2_def e1 applyStrokePattern_None)
  have st: "m_state gc2 = m_state gc"
    by (simp add: e2 m_state_applyStrokePattern m_state_applyFillPattern)
  have cm: "calculateDrawingMode gc2 = calculateDrawingMode gc"
    by (rule calculateDrawingMode_cong [OF st])
  have dp: "drawPath path gc =
      (case calculateDrawingMode gc of (shouldDraw, drawingMode) \<Rightarrow>
         if shouldDraw then onCG (drawPathWithCGContext drawingMode path) gc2 else gc2)"
  proof -
    have "drawPath path gc =
      (case calculateDrawingMode gc2 of (shouldDraw, drawingMode) \<Rightarrow>
         if shouldDraw then onCG (drawPathWithCGContext drawingMode path) gc2 else gc2)"
      unfolding drawPath_def Let_def gc2_def gc1_def using h by simp
    thus ?thesis by (simp only: cm)
  qed
  show "drawPath path gc =
          (case specDrawingModeTable (brushIsVisible (fillBrush (m_state gc)))
                  (brushIsVisible (strokeBrush (m_state gc)) \<or> strokeStyle (m_state gc) \<noteq> NoStroke)
                  (fillRule (m_state gc) = EvenOdd) of
             None \<Rightarrow> applyStrokePattern (applyFillPattern gc)
           | Some mode \<Rightarrow>
               onCG (cgIssue (CGContextDrawPathDirect mode path))
                    (applyStrokePattern (applyFillPattern gc)))"
    unfolding calculateDrawingMode_table [of gc, symmetric] dp e2
    by (cases "calculateDrawingMode gc") (simp add: drawPathWithCGContext_eq)
qed

lemma bitmapContext_brushes:
  "brushIsVisible (fillBrush (m_state bitmapContext))"
  "brushIsVisible (strokeBrush (m_state bitmapContext))"
  "fillRule (m_state bitmapContext) = NonZero"
  "fillGradient bitmapContext = None" "strokeGradient bitmapContext = None"
  "fillPattern bitmapContext = None" "strokePattern bitmapContext = None"
  by (simp_all add: bitmapContext_def initialState_def solidBrush_def brushIsVisible_def
        colorIsVisible_def opaqueBlack_def fillGradient_def strokeGradient_def fillPattern_def
        strokePattern_def)

theorem drawPath_mode_table_witness:
  "\<not> pathIsEmpty unitSquarePath \<and> fillGradient bitmapContext = None
   \<and> strokeGradient bitmapContext = None
   \<and> drawPath unitSquarePath bitmapContext
       = onCG (cgIssue (CGContextDrawPathDirect kCGPathFillStroke unitSquarePath)) bitmapContext"
  using drawPath_mode_table [of bitmapContext unitSquarePath]
  by (simp add: bitmapContext_brushes applyFillPattern_None applyStrokePattern_None
        unitSquarePath_def)

section \<open>The state stack\<close>

text \<open>
  C2. When the state stack is empty, \<^verbatim>\<open>restore\<close> returns the context as it received it:
  the drawing state, the backend's graphics state and its log of calls are all unchanged, and
  no error value exists that it could return.
\<close>

theorem restore_on_empty_stack: "stackSize gc = 0 \<Longrightarrow> restore gc = gc"
  by (simp add: restore_def)

theorem restore_on_empty_stack_witness:
  "stackSize bitmapContext = 0 \<and> restore bitmapContext = bitmapContext"
  using restore_on_empty_stack [of bitmapContext]
  by (simp add: stackSize_def bitmapContext_def)

section \<open>Empty paths\<close>

text \<open>
  C8, as the code has it. With an empty path, \<^verbatim>\<open>drawPath\<close>, \<^verbatim>\<open>fillPath\<close> and \<^verbatim>\<open>strokePath\<close>
  return the context unchanged. The clip operations do not: \<^verbatim>\<open>clipPath\<close> clips to the zero
  rectangle, and \<^verbatim>\<open>clipOut\<close> on a path begins a path, adds the clip bounding box and applies
  it as an even-odd clip.
\<close>

theorem empty_path_operations:
  "pathIsEmpty path \<Longrightarrow>
     drawPath path gc = gc \<and> fillPath path gc = gc \<and> strokePath path gc = gc
     \<and> clipPath path clipRule gc = onCG (cgIssue (CGContextClipToRect CGRectZero)) gc
     \<and> clipOutPath path gc
         = onCG (cgIssueAll [CGContextBeginPath, CGContextAddRect CGClipBoundingBox,
                             CGContextEOClip]) gc"
  by (simp add: drawPath_def fillPath_def strokePath_def clipPath_def clipOutPath_def)

theorem empty_path_operations_witness:
  "pathIsEmpty emptyPath \<and> drawPath emptyPath bitmapContext = bitmapContext
   \<and> fillPath emptyPath bitmapContext = bitmapContext
   \<and> strokePath emptyPath bitmapContext = bitmapContext
   \<and> callsSince bitmapContext (clipPath emptyPath NonZero bitmapContext)
       = [CGContextClipToRect CGRectZero]
   \<and> callsSince bitmapContext (clipOutPath emptyPath bitmapContext)
       = [CGContextBeginPath, CGContextAddRect CGClipBoundingBox, CGContextEOClip]"
  using empty_path_operations [of emptyPath bitmapContext NonZero]
  by (simp add: emptyPath_def callsSince_cgIssue callsSince_cgIssueAll)

text \<open>
  The claim as stated fails for \<^verbatim>\<open>clipPath\<close>: on the fresh bitmap context, whose clip is
  empty, clipping to the empty path leaves a clip to the zero rectangle behind.
\<close>

theorem empty_path_clip_counterexample:
  "pathIsEmpty emptyPath
   \<and> gsClip (cgGState (m_cgContext bitmapContext)) = []
   \<and> gsClip (cgGState (m_cgContext (clipPath emptyPath NonZero bitmapContext)))
       = [ClipToRect CGRectZero]
   \<and> clipPath emptyPath NonZero bitmapContext \<noteq> bitmapContext"
proof -
  have c: "gsClip (cgGState (m_cgContext (clipPath emptyPath NonZero bitmapContext)))
           = [ClipToRect CGRectZero]"
    by (simp add: clipPath_def emptyPath_def onCG_def cgIssue_def addClip_def updGState_def
          bitmapContext_def initialGState_def)
  have b: "gsClip (cgGState (m_cgContext bitmapContext)) = []"
    by (simp add: bitmapContext_def initialGState_def)
  from c b have "clipPath emptyPath NonZero bitmapContext \<noteq> bitmapContext"
    by auto
  with c b show ?thesis by (simp add: emptyPath_def)
qed

section \<open>Clipping a rectangle out\<close>

text \<open>
  C5, as the code has it. \<^verbatim>\<open>clipOut\<close> on a rectangle issues begin-path, add-rects and an
  even-odd clip; the first rectangle is the infinite one exactly when the backend is not a PDF
  context and either the rendering mode is unaccelerated or the transform has \<open>b = 0\<close> and
  \<open>c = 0\<close>, and is the clip bounding box otherwise.
\<close>

theorem clipOut_everything_rect:
  "callsSince gc (clipOut rect gc) =
     [CGContextBeginPath,
      CGContextAddRects
        [if cgType (m_cgContext gc) \<noteq> kCGContextTypePDF
            \<and> (m_renderingMode gc = Unaccelerated
                \<or> (t_b (getCTM gc) = 0 \<and> t_c (getCTM gc) = 0))
         then CGRectInfinite else CGClipBoundingBox,
         CGRectOf rect],
      CGContextEOClip]"
  by (simp add: clipOut_def canUseCGRectInfinite_def Let_def callsSince_cgIssueAll)

theorem clipOut_everything_rect_witness:
  "callsSince pdfContext (clipOut (mkRect 0 0 10 10) pdfContext) =
     [CGContextBeginPath, CGContextAddRects [CGClipBoundingBox, CGRectOf (mkRect 0 0 10 10)],
      CGContextEOClip]"
  using clipOut_everything_rect [of pdfContext "mkRect 0 0 10 10"]
  by (simp add: pdfContext_def onCG_def)

text \<open>
  The claim as stated fails on an unaccelerated bitmap context whose transform is a rotation:
  the infinite rectangle is used although the transform has rotation.
\<close>

theorem clipOut_rotation_counterexample:
  "cgType (m_cgContext rotatedBitmapContext) \<noteq> kCGContextTypePDF
   \<and> getCTM rotatedBitmapContext = CGAffineTransformMake 0 1 (- 1) 0 0 0
   \<and> isRotateOrShear (getCTM rotatedBitmapContext)
   \<and> callsSince rotatedBitmapContext (clipOut (mkRect 0 0 10 10) rotatedBitmapContext) =
       [CGContextBeginPath, CGContextAddRects [CGRectInfinite, CGRectOf (mkRect 0 0 10 10)],
        CGContextEOClip]"
proof -
  have m: "m_renderingMode rotatedBitmapContext = Unaccelerated"
    by (simp add: rotatedBitmapContext_def onCG_def bitmapContext_def
          renderingModeForCGContext_def)
  have t: "cgType (m_cgContext rotatedBitmapContext) = kCGContextTypeBitmap"
    by (simp add: rotatedBitmapContext_def onCG_def bitmapContext_def updGState_def)
  have r: "isRotateOrShear (getCTM rotatedBitmapContext)"
    by (simp add: rotatedBitmapContext_def onCG_def bitmapContext_def updGState_def getCTM_def
          isRotateOrShear_def CGAffineTransformMake_def)
  have "canUseCGRectInfinite rotatedBitmapContext"
    by (simp add: canUseCGRectInfinite_def m t)
  hence "callsSince rotatedBitmapContext (clipOut (mkRect 0 0 10 10) rotatedBitmapContext) =
       [CGContextBeginPath, CGContextAddRects [CGRectInfinite, CGRectOf (mkRect 0 0 10 10)],
        CGContextEOClip]"
    by (simp add: clipOut_def callsSince_cgIssueAll)
  moreover have "getCTM rotatedBitmapContext = CGAffineTransformMake 0 1 (- 1) 0 0 0"
    by (simp add: rotatedBitmapContext_def onCG_def updGState_def getCTM_def)
  ultimately show ?thesis using t r by simp
qed

section \<open>The blur radius\<close>










lemma gsStyle_cgIssue_SetStyle:
  "gsStyle (cgGState (cgIssue (CGContextSetStyle st) cg)) = st"
  by (simp add: cgIssue_def updGState_def)

lemma setCGDropShadow_style:
  "gsStyle (cgGState (m_cgContext (setCGDropShadow shadow ign gc))) =
     (case shadow of
        None \<Rightarrow> None
      | Some s \<Rightarrow>
          if \<not> isValid (color s) \<or> (sizeIsZero (offset s) \<and> radius s = 0) then None
          else Some (CGStyleShadow
                       (if \<not> ign then CGSizeApplyAffineTransform (offset s) (getUserToBaseCTM (m_cgContext gc))
                        else offset s)
                       (scaledBlurRadius (radius s) (getUserToBaseCTM (m_cgContext gc)) ign)
                       (color s)))"
  by (simp add: setCGDropShadow_def clearCGDropShadow_def m_cgContext_onCG Let_def
        gsStyle_cgIssue_SetStyle split: option.splits)



section \<open>Drop shadows\<close>

lemma callsSince_setCGDropShadow:
  "callsSince gc (setCGDropShadow shadow ign gc) =
     (case shadow of
        None \<Rightarrow> [CGContextSetStyle None]
      | Some s \<Rightarrow>
          if \<not> isValid (color s) \<or> (sizeIsZero (offset s) \<and> radius s = 0)
          then [CGContextSetStyle None]
          else [CGContextSetAlpha (opacity s),
                CGContextSetStyle (Some (CGStyleShadow
                   (if \<not> ign then CGSizeApplyAffineTransform (offset s) (getUserToBaseCTM (m_cgContext gc))
                    else offset s)
                   (scaledBlurRadius (radius s) (getUserToBaseCTM (m_cgContext gc)) ign)
                   (color s)))])"
  by (simp add: setCGDropShadow_def clearCGDropShadow_def Let_def callsSince_cgIssue
        callsSince_cgIssueAll split: option.splits)

lemma scaledBlurRadius_ignoring: "scaledBlurRadius r t True = min r 1000"
  by (simp add: scaledBlurRadius_def)

text \<open>
  C6, as the code has it. When shadows ignore transforms, the blur radius is the configured
  radius clamped to 1000, whatever the transform: it is the configured radius itself exactly
  when that is at most 1000. The style that \<^verbatim>\<open>setCGDropShadow\<close> installs then carries the
  configured offset unmodified and the clamped radius.
\<close>

theorem shadow_ignoring_transforms:
  "scaledBlurRadius r t True = min r 1000
   \<and> (r \<le> 1000 \<longrightarrow> scaledBlurRadius r t True = r)
   \<and> (isValid (color s) \<and> \<not> (sizeIsZero (offset s) \<and> radius s = 0) \<longrightarrow>
        callsSince gc (setCGDropShadow (Some s) True gc) =
          [CGContextSetAlpha (opacity s),
           CGContextSetStyle (Some (CGStyleShadow (offset s) (min (radius s) 1000) (color s)))])"
  by (simp add: scaledBlurRadius_ignoring callsSince_setCGDropShadow)

theorem shadow_ignoring_transforms_witness:
  "(3::real) \<le> 1000 \<and> scaledBlurRadius 3 (CGAffineTransformMake 2 0 0 2 0 0) True = 3
   \<and> isValid (color transparentShadow)
   \<and> \<not> (sizeIsZero (offset transparentShadow) \<and> radius transparentShadow = 0)
   \<and> callsSince bitmapContext (setCGDropShadow (Some transparentShadow) True bitmapContext) =
        [CGContextSetAlpha 1,
         CGContextSetStyle (Some (CGStyleShadow \<lparr>width = 2, height = 2\<rparr> 3 transparentBlack))]"
  using shadow_ignoring_transforms [of 3 "CGAffineTransformMake 2 0 0 2 0 0" transparentShadow
          bitmapContext]
  by (simp add: transparentShadow_def transparentBlack_def sizeIsZero_def)

text \<open>
  The claim as stated fails for a radius above the clamp: with the flag set, a configured
  radius of 5000 is installed as 1000.
\<close>

theorem shadow_ignoring_transforms_counterexample:
  "radius hugeShadow = 5000
   \<and> gsStyle (cgGState (m_cgContext (setCGDropShadow (Some hugeShadow) True bitmapContext)))
       = Some (CGStyleShadow (offset hugeShadow) 1000 (color hugeShadow))
   \<and> scaledBlurRadius 5000 CGAffineTransformIdentity True \<noteq> 5000"
  by (simp add: setCGDropShadow_style scaledBlurRadius_ignoring hugeShadow_def opaqueBlack_def
        sizeIsZero_def)

text \<open>
  C9, as the code has it. \<^verbatim>\<open>setCGDropShadow\<close> leaves the backend without a style exactly
  when the shadow is missing, its colour is invalid, or its offset and its radius are both
  zero; it then issues the one call that clears the style. A valid colour is not examined
  further, so a fully transparent one installs a shadow style.
\<close>

theorem drop_shadow_cleared:
  "(gsStyle (cgGState (m_cgContext (setCGDropShadow shadow ign gc))) = None)
     = (case shadow of
          None \<Rightarrow> True
        | Some s \<Rightarrow> \<not> isValid (color s) \<or> (sizeIsZero (offset s) \<and> radius s = 0))
   \<and> ((case shadow of
          None \<Rightarrow> True
        | Some s \<Rightarrow> \<not> isValid (color s) \<or> (sizeIsZero (offset s) \<and> radius s = 0)) \<longrightarrow>
        setCGDropShadow shadow ign gc = clearCGDropShadow gc
        \<and> callsSince gc (setCGDropShadow shadow ign gc) = [CGContextSetStyle None])"
  by (cases shadow) (simp_all add: setCGDropShadow_style callsSince_setCGDropShadow,
      simp_all add: setCGDropShadow_def)

theorem drop_shadow_cleared_witness:
  "\<not> isValid (color invalidColorShadow)
   \<and> gsStyle (cgGState (m_cgContext (setCGDropShadow (Some invalidColorShadow) False bitmapContext)))
       = None
   \<and> callsSince bitmapContext (setCGDropShadow (Some invalidColorShadow) False bitmapContext)
       = [CGContextSetStyle None]"
proof -
  note th = drop_shadow_cleared [of "Some invalidColorShadow" False bitmapContext,
              unfolded option.case]
  have c: "\<not> isValid (color invalidColorShadow)"
    by (simp add: invalidColorShadow_def invalidColor_def)
  from th c show ?thesis by blast
qed

text \<open>
  The claim as stated fails for a fully transparent colour: transparent black is valid, and
  a shadow of that colour with a non-zero offset is installed as a style.
\<close>

theorem transparent_shadow_counterexample:
  "alphaChannel (color transparentShadow) = 0
   \<and> \<not> colorIsVisible (color transparentShadow)
   \<and> gsStyle (cgGState (m_cgContext (setCGDropShadow (Some transparentShadow) True bitmapContext)))
       = Some (CGStyleShadow \<lparr>width = 2, height = 2\<rparr> 3 transparentBlack)"
  by (simp add: setCGDropShadow_style scaledBlurRadius_ignoring transparentShadow_def
        transparentBlack_def sizeIsZero_def colorIsVisible_def)

section \<open>Filling a rectangle with a colour\<close>

lemma canUseShadowBlur_onCG: "canUseShadowBlur (onCG f gc) = canUseShadowBlur gc"
  by (simp add: canUseShadowBlur_def hasBlurredDropShadow_def onCG_def)

lemma fillColor_onCG: "fillColor (onCG f gc) = fillColor gc"
  by (simp add: fillColor_def onCG_def)

lemma fillRect_unfold:
  "fillRect rect col gc =
     onCG (\<lambda>cg.
        let cg1 = (if fillColor gc \<noteq> col then cgIssue (CGContextSetFillColorWithColor col) cg else cg);
            cg3 = (if canUseShadowBlur gc then
                     (case dropShadow (m_state gc) of
                        None \<Rightarrow> (\<lambda>c. c)
                      | Some shadow \<Rightarrow>
                          cgIssue (ShadowBlurDrawRectShadow shadow
                                     (shadowsIgnoreTransforms (m_state gc)) rect))
                       (cgIssue (CGContextSetStyle None) (cgIssue CGContextSaveGState cg1))
                   else cg1);
            cg4 = cgIssue (CGContextFillRect (CGRectOf rect)) cg3;
            cg5 = (if canUseShadowBlur gc then cgIssue CGContextRestoreGState cg4 else cg4)
        in if fillColor gc \<noteq> col then cgIssue (CGContextSetFillColorWithColor (fillColor gc)) cg5
           else cg5) gc"
proof -
  have c: "canUseShadowBlur (if fillColor gc \<noteq> col then onCG (setCGFillColor col) gc else gc)
           = canUseShadowBlur gc"
    by (simp add: canUseShadowBlur_onCG)
  show ?thesis
    unfolding fillRect_def Let_def c
    by (simp add: setCGFillColor_def drawRectShadow_def clearCGDropShadow_def onCG_def
          split: option.splits)
qed

lemma fillRect_m_state: "m_state (fillRect rect col gc) = m_state gc"
  by (simp add: fillRect_unfold m_state_onCG)

lemma fillRect_gstate:
  "cgGState (m_cgContext (fillRect rect col gc)) =
     (if fillColor gc \<noteq> col
      then (cgGState (m_cgContext gc))\<lparr>gsFillColor := CGColorPaint (fillColor gc)\<rparr>
      else cgGState (m_cgContext gc))"
  by (simp add: fillRect_unfold m_cgContext_onCG Let_def cgIssue_def updGState_def
        split: option.splits)

lemma fillRect_gstack:
  "cgGStack (m_cgContext (fillRect rect col gc)) = cgGStack (m_cgContext gc)"
  by (simp add: fillRect_unfold m_cgContext_onCG Let_def cgIssue_def updGState_def
        split: option.splits)

lemma fillRect_entries:
  "fillColor gc \<noteq> col \<Longrightarrow>
   map (gsFillColor \<circ> snd)
     (filter (\<lambda>e. fst e = CGContextFillRect (CGRectOf rect)) (entriesSince gc (fillRect rect col gc)))
   = [CGColorPaint col]"
  by (simp add: fillRect_unfold m_cgContext_onCG Let_def entriesSince_def cgIssue_def
        updGState_def cgEffect_log split: option.splits)

text \<open>
  C10. \<^verbatim>\<open>fillRect\<close> with a colour leaves the drawing state, the stack of saved states and
  the backend's stack of graphics states as they were. When the colour differs from the
  current fill colour, the one rectangle fill it issues runs under that colour as the backend
  fill colour, and on return the backend fill colour is the context's fill colour again; the
  rest of the backend's graphics state is as on entry.
\<close>

theorem fillRect_restores_fill_color:
  "m_state (fillRect rect col gc) = m_state gc
   \<and> m_stack (fillRect rect col gc) = m_stack gc
   \<and> fillColor (fillRect rect col gc) = fillColor gc
   \<and> cgGStack (m_cgContext (fillRect rect col gc)) = cgGStack (m_cgContext gc)
   \<and> cgGState (m_cgContext (fillRect rect col gc)) =
       (if fillColor gc \<noteq> col
        then (cgGState (m_cgContext gc))\<lparr>gsFillColor := CGColorPaint (fillColor gc)\<rparr>
        else cgGState (m_cgContext gc))
   \<and> (fillColor gc \<noteq> col \<longrightarrow>
        map (gsFillColor \<circ> snd)
          (filter (\<lambda>e. fst e = CGContextFillRect (CGRectOf rect))
             (entriesSince gc (fillRect rect col gc)))
        = [CGColorPaint col]
        \<and> gsFillColor (cgGState (m_cgContext (fillRect rect col gc))) = CGColorPaint (fillColor gc))"
proof (intro conjI impI)
  show "m_state (fillRect rect col gc) = m_state gc" by (rule fillRect_m_state)
  show "m_stack (fillRect rect col gc) = m_stack gc"
    by (simp add: fillRect_unfold onCG_def)
  show "fillColor (fillRect rect col gc) = fillColor gc"
    by (simp add: fillColor_def fillRect_m_state)
  show "cgGStack (m_cgContext (fillRect rect col gc)) = cgGStack (m_cgContext gc)"
    by (rule fillRect_gstack)
  show "cgGState (m_cgContext (fillRect rect col gc)) =
       (if fillColor gc \<noteq> col
        then (cgGState (m_cgContext gc))\<lparr>gsFillColor := CGColorPaint (fillColor gc)\<rparr>
        else cgGState (m_cgContext gc))"
    by (rule fillRect_gstate)
  show "map (gsFillColor \<circ> snd)
          (filter (\<lambda>e. fst e = CGContextFillRect (CGRectOf rect))
             (entriesSince gc (fillRect rect col gc)))
        = [CGColorPaint col]" if "fillColor gc \<noteq> col"
    using that by (rule fillRect_entries)
  show "gsFillColor (cgGState (m_cgContext (fillRect rect col gc))) = CGColorPaint (fillColor gc)"
    if "fillColor gc \<noteq> col"
    using that by (simp add: fillRect_gstate)
qed

theorem fillRect_restores_fill_color_witness:
  "fillColor blurredShadowContext \<noteq> opaqueRed
   \<and> canUseShadowBlur blurredShadowContext
   \<and> m_state (fillRect (mkRect 0 0 10 10) opaqueRed blurredShadowContext)
       = m_state blurredShadowContext
   \<and> map (gsFillColor \<circ> snd)
        (filter (\<lambda>e. fst e = CGContextFillRect (CGRectOf (mkRect 0 0 10 10)))
           (entriesSince blurredShadowContext
              (fillRect (mkRect 0 0 10 10) opaqueRed blurredShadowContext)))
       = [CGColorPaint opaqueRed]
   \<and> cgGState (m_cgContext (fillRect (mkRect 0 0 10 10) opaqueRed blurredShadowContext))
       = cgGState (m_cgContext blurredShadowContext)"
proof -
  note th = fillRect_restores_fill_color [of "mkRect 0 0 10 10" opaqueRed blurredShadowContext]
  have fc: "fillColor blurredShadowContext = opaqueBlack"
    by (simp add: fillColor_def blurredShadowContext_def initialState_def solidBrush_def)
  have ne: "fillColor blurredShadowContext \<noteq> opaqueRed"
    by (simp add: fc opaqueBlack_def opaqueRed_def)
  have sb: "canUseShadowBlur blurredShadowContext"
    by (simp add: canUseShadowBlur_def hasBlurredDropShadow_def blurredShadowContext_def
          bitmapContext_def renderingModeForCGContext_def initialState_def shadowIsBlurred_def
          shadowIsVisible_def colorIsVisible_def opaqueBlack_def)
  have sync: "(cgGState (m_cgContext blurredShadowContext))\<lparr>gsFillColor := CGColorPaint opaqueBlack\<rparr>
              = cgGState (m_cgContext blurredShadowContext)"
    by (simp add: blurredShadowContext_def bitmapContext_def initialGState_def)
  from th ne have
    "cgGState (m_cgContext (fillRect (mkRect 0 0 10 10) opaqueRed blurredShadowContext))
       = cgGState (m_cgContext blurredShadowContext)"
    by (simp add: fc sync)
  with th ne sb show ?thesis by blast
qed

section \<open>Pattern tiling\<close>










section \<open>Drawing part of an image\<close>

lemma shouldUseSubimage_iff:
  "shouldUseSubimage areEssentiallyEqual interpolationQuality destRect srcRect transform =
     (interpolationQuality \<noteq> kCGInterpolationNone
      \<and> (isRotateOrShear transform
         \<or> \<not> areEssentiallyEqual
               (width (m_size destRect) * xScale transform / width (m_size srcRect))
               (height (m_size destRect) * yScale transform / height (m_size srcRect))
         \<or> width (m_size destRect) * xScale transform / width (m_size srcRect) > 1))"
  by (simp add: shouldUseSubimage_def Let_def)

lemma drawNativeImage_subImage_partial:
  assumes "platformImage nativeImage = Some cgImage"
    and "intersects
           \<lparr>m_location = \<lparr>p_x = 0, p_y = 0\<rparr>,
            m_size = (if usesWidthAsHeight then transposedSize (nativeImageSize nativeImage)
                      else nativeImageSize nativeImage)\<rparr>
           (normalizeRect srcRect)"
    and "normalizeRect srcRect \<noteq>
           \<lparr>m_location = \<lparr>p_x = 0, p_y = 0\<rparr>,
            m_size = (if usesWidthAsHeight then transposedSize (nativeImageSize nativeImage)
                      else nativeImageSize nativeImage)\<rparr>"
  shows "drawNativeImage_subImage areEssentiallyEqual nativeImage destRect srcRect
           usesWidthAsHeight gc
         = Some (if shouldUseSubimage areEssentiallyEqual
                      (gsInterpolationQuality (cgGState (m_cgContext gc)))
                      (normalizeRect destRect) (normalizeRect srcRect)
                      (gsCTM (cgGState (m_cgContext gc)))
                 then CGImageCreateWithImageInRect cgImage (enclosingIntRect (normalizeRect srcRect))
                 else WholeImage cgImage)"
  using assms by (simp add: drawNativeImage_subImage_def Let_def)

text \<open>
  C3. \<^verbatim>\<open>shouldUseSubimage\<close> answers yes exactly when the interpolation quality is not "none"
  and the transform has rotation or shear, or the two scale factors (destination extent
  times the transform's scale over source extent) are not essentially equal, or the x scale
  factor exceeds 1; with quality "none" it always answers no. In \<^verbatim>\<open>drawNativeImage\<close>, for an
  image that is present and a normalized source rectangle that meets the image bounds
  without being equal to them, the image drawn is the extracted sub-image exactly when
  \<^verbatim>\<open>shouldUseSubimage\<close> answers yes for the backend's quality and transform, and the whole
  image otherwise.
\<close>

theorem subimage_selection:
  "shouldUseSubimage areEssentiallyEqual interpolationQuality dst src transform =
     (interpolationQuality \<noteq> kCGInterpolationNone
      \<and> (isRotateOrShear transform
         \<or> \<not> areEssentiallyEqual
               (width (m_size dst) * xScale transform / width (m_size src))
               (height (m_size dst) * yScale transform / height (m_size src))
         \<or> width (m_size dst) * xScale transform / width (m_size src) > 1))
   \<and> \<not> shouldUseSubimage areEssentiallyEqual kCGInterpolationNone dst src transform
   \<and> (platformImage nativeImage = Some cgImage
       \<and> intersects
           \<lparr>m_location = \<lparr>p_x = 0, p_y = 0\<rparr>,
            m_size = (if usesWidthAsHeight then transposedSize (nativeImageSize nativeImage)
                      else nativeImageSize nativeImage)\<rparr>
           (normalizeRect srcRect)
       \<and> normalizeRect srcRect \<noteq>
           \<lparr>m_location = \<lparr>p_x = 0, p_y = 0\<rparr>,
            m_size = (if usesWidthAsHeight then transposedSize (nativeImageSize nativeImage)
                      else nativeImageSize nativeImage)\<rparr>
       \<longrightarrow>
       drawNativeImage_subImage areEssentiallyEqual nativeImage destRect srcRect
         usesWidthAsHeight gc
       = Some (if shouldUseSubimage areEssentiallyEqual
                    (gsInterpolationQuality (cgGState (m_cgContext gc)))
                    (normalizeRect destRect) (normalizeRect srcRect)
                    (gsCTM (cgGState (m_cgContext gc)))
               then CGImageCreateWithImageInRect cgImage (enclosingIntRect (normalizeRect srcRect))
               else WholeImage cgImage))"
proof (intro conjI impI)
  show "shouldUseSubimage areEssentiallyEqual interpolationQuality dst src transform =
     (interpolationQuality \<noteq> kCGInterpolationNone
      \<and> (isRotateOrShear transform
         \<or> \<not> areEssentiallyEqual
               (width (m_size dst) * xScale transform / width (m_size src))
               (height (m_size dst) * yScale transform / height (m_size src))
         \<or> width (m_size dst) * xScale transform / width (m_size src) > 1))"
    by (rule shouldUseSubimage_iff)
  show "\<not> shouldUseSubimage areEssentiallyEqual kCGInterpolationNone dst src transform"
    by (simp add: shouldUseSubimage_def)
next
  assume "platformImage nativeImage = Some cgImage
       \<and> intersects
           \<lparr>m_location = \<lparr>p_x = 0, p_y = 0\<rparr>,
            m_size = (if usesWidthAsHeight then transposedSize (nativeImageSize nativeImage)
                      else nativeImageSize nativeImage)\<rparr>
           (normalizeRect srcRect)
       \<and> normalizeRect srcRect \<noteq>
           \<lparr>m_location = \<lparr>p_x = 0, p_y = 0\<rparr>,
            m_size = (if usesWidthAsHeight then transposedSize (nativeImageSize nativeImage)
                      else nativeImageSize nativeImage)\<rparr>"
  thus "drawNativeImage_subImage areEssentiallyEqual nativeImage destRect srcRect
         usesWidthAsHeight gc
       = Some (if shouldUseSubimage areEssentiallyEqual
                    (gsInterpolationQuality (cgGState (m_cgContext gc)))
                    (normalizeRect destRect) (normalizeRect srcRect)
                    (gsCTM (cgGState (m_cgContext gc)))
               then CGImageCreateWithImageInRect cgImage (enclosingIntRect (normalizeRect srcRect))
               else WholeImage cgImage)"
    by (intro drawNativeImage_subImage_partial) blast+
qed

lemma quarter_of_squareImage:
  "platformImage squareImage = Some \<lparr>imageId = 1, CGImageGetWidth = 100, CGImageGetHeight = 100\<rparr>"
  "normalizeRect (mkRect 0 0 50 50) = mkRect 0 0 50 50"
  "intersects \<lparr>m_location = \<lparr>p_x = 0, p_y = 0\<rparr>, m_size = nativeImageSize squareImage\<rparr>
     (mkRect 0 0 50 50)"
  "mkRect 0 0 50 50 \<noteq> \<lparr>m_location = \<lparr>p_x = 0, p_y = 0\<rparr>, m_size = nativeImageSize squareImage\<rparr>"
  "enclosingIntRect (mkRect 0 0 50 50) = mkRect 0 0 50 50"
  by (simp_all add: squareImage_def normalizeRect_def mkRect_def rectMaxX_def rectMaxY_def
        intersects_def rectIsEmpty_def enclosingIntRect_def)

theorem subimage_selection_witness:
  "drawNativeImage_subImage exactlyEqual squareImage (mkRect 0 0 50 50) (mkRect 0 0 50 50) False
     shearedBitmapContext
   = Some (CGImageCreateWithImageInRect
             \<lparr>imageId = 1, CGImageGetWidth = 100, CGImageGetHeight = 100\<rparr> (mkRect 0 0 50 50))
   \<and> drawNativeImage_subImage exactlyEqual squareImage (mkRect 0 0 50 50) (mkRect 0 0 50 50) False
       uninterpolatedBitmapContext
     = Some (WholeImage \<lparr>imageId = 1, CGImageGetWidth = 100, CGImageGetHeight = 100\<rparr>)"
proof -
  note a = subimage_selection [where areEssentiallyEqual = exactlyEqual
      and nativeImage = squareImage
      and cgImage = "\<lparr>imageId = 1, CGImageGetWidth = 100, CGImageGetHeight = 100\<rparr>"
      and usesWidthAsHeight = False and srcRect = "mkRect 0 0 50 50"
      and destRect = "mkRect 0 0 50 50" and gc = shearedBitmapContext]
  note b = subimage_selection [where areEssentiallyEqual = exactlyEqual
      and nativeImage = squareImage
      and cgImage = "\<lparr>imageId = 1, CGImageGetWidth = 100, CGImageGetHeight = 100\<rparr>"
      and usesWidthAsHeight = False and srcRect = "mkRect 0 0 50 50"
      and destRect = "mkRect 0 0 50 50" and gc = uninterpolatedBitmapContext]
  have q1: "gsInterpolationQuality (cgGState (m_cgContext shearedBitmapContext))
            = kCGInterpolationDefault"
    and t1: "isRotateOrShear (gsCTM (cgGState (m_cgContext shearedBitmapContext)))"
    by (simp_all add: shearedBitmapContext_def onCG_def updGState_def bitmapContext_def
          initialGState_def isRotateOrShear_def CGAffineTransformMake_def)
  have q2: "gsInterpolationQuality (cgGState (m_cgContext uninterpolatedBitmapContext))
            = kCGInterpolationNone"
    by (simp add: uninterpolatedBitmapContext_def onCG_def updGState_def)
  from a have 1: "drawNativeImage_subImage exactlyEqual squareImage (mkRect 0 0 50 50)
       (mkRect 0 0 50 50) False shearedBitmapContext
     = Some (CGImageCreateWithImageInRect
             \<lparr>imageId = 1, CGImageGetWidth = 100, CGImageGetHeight = 100\<rparr> (mkRect 0 0 50 50))"
    by (simp add: quarter_of_squareImage q1 t1)
  from b have 2: "drawNativeImage_subImage exactlyEqual squareImage (mkRect 0 0 50 50)
       (mkRect 0 0 50 50) False uninterpolatedBitmapContext
     = Some (WholeImage \<lparr>imageId = 1, CGImageGetWidth = 100, CGImageGetHeight = 100\<rparr>)"
    by (simp add: quarter_of_squareImage q2)
  from 1 2 show ?thesis by blast
qed

end
